theory Spec2Isabelle
  imports Complex_Main
begin

section \<open>The noise adder: data model\<close>

text \<open>
  A shallow embedding of \<^verbatim>\<open>src/main.py\<close>: the function \<^verbatim>\<open>add_noise\<close> and the
  command-line driver \<^verbatim>\<open>main\<close>.

  Conventions of the embedding.
  \<^item> Python floats are idealised as real numbers: rounding, infinities and NaN are
    outside the model. The products \<open>x * (1 + u)\<close> and the draws
    \<open>low + (high - low) * r\<close> stay as the source and numpy write them; no theorem
    below rests on a law of real arithmetic that floating-point arithmetic lacks.
  \<^item> A pandas column is either of a numeric dtype (its values are numbers) or of
    dtype \<^verbatim>\<open>object\<close> (its values are text, as \<^verbatim>\<open>read_csv\<close> produces them).
  \<^item> A DataFrame is the ordered list of its labelled columns; a row is a position in
    the columns.
  \<^item> DataFrames are objects: the store \<open>heap\<close> holds them, a reference is an index
    into the store, and assignment to a column overwrites the object in the store.
  \<^item> An exception is a value; a function that can raise returns
    \<open>(py_exception + 'a) \<times> world\<close>, the world as it is when the exception leaves.
\<close>

datatype py_exception =
    ValueError string
  | TypeError string
  | AttributeError string
  | FileNotFoundError string
  | EmptyDataError string
  | ParserError string

text \<open>\<^verbatim>\<open>str(e)\<close>, the text that an f-string \<^verbatim>\<open>{e}\<close> prints.\<close>

fun str_of :: "py_exception \<Rightarrow> string" where
  "str_of (ValueError m) = m"
| "str_of (TypeError m) = m"
| "str_of (AttributeError m) = m"
| "str_of (FileNotFoundError m) = m"
| "str_of (EmptyDataError m) = m"
| "str_of (ParserError m) = m"

datatype column = NumCol "real list" | ObjCol "string list"

type_synonym dataframe = "(string \<times> column) list"

type_synonym ref = nat

datatype level = INFO | ERROR

datatype file_content = EmptyFile | Csv dataframe | Malformed

text \<open>
  The process-wide state: the global generator of \<^verbatim>\<open>numpy.random\<close>, the generator of
  Python's \<^verbatim>\<open>random\<close> module, the records written by \<^verbatim>\<open>logging\<close>, the store of
  DataFrame objects and the file system. A generator state is the sequence of the unit
  samples it will produce from now on.
\<close>

record world =
  np_rng :: "nat \<Rightarrow> real"
  py_rng :: "nat \<Rightarrow> real"
  logged :: "(level \<times> string) list"
  heap :: "dataframe list"
  files :: "string \<rightharpoonup> file_content"

text \<open>
  The two seeding algorithms (Mersenne Twister initialisation) are library code; they
  enter as a parameter: the sample sequence that each seed starts.
\<close>

record randlib =
  mt_numpy :: "int \<Rightarrow> nat \<Rightarrow> real"
  mt_python :: "int \<Rightarrow> nat \<Rightarrow> real"

subsection \<open>Logging\<close>

definition logging_info :: "string \<Rightarrow> world \<Rightarrow> world" where
  "logging_info m w = w\<lparr>logged := logged w @ [(INFO, m)]\<rparr>"

definition logging_error :: "string \<Rightarrow> world \<Rightarrow> world" where
  "logging_error m w = w\<lparr>logged := logged w @ [(ERROR, m)]\<rparr>"

subsection \<open>The random generators\<close>

text \<open>
  \<^verbatim>\<open>np.random.seed(seed)\<close> accepts an integer from 0 to \<open>2^32 - 1\<close> and raises
  \<^verbatim>\<open>ValueError\<close> on any other; \<^verbatim>\<open>random.seed(seed)\<close> accepts every integer.
\<close>

definition np_random_seed :: "randlib \<Rightarrow> int \<Rightarrow> world \<Rightarrow> py_exception + world" where
  "np_random_seed L s w =
     (if s < 0 \<or> s > 2 ^ 32 - 1
      then Inl (ValueError ''Seed must be between 0 and 2**32 - 1'')
      else Inr (w\<lparr>np_rng := mt_numpy L s\<rparr>))"

definition random_seed :: "randlib \<Rightarrow> int \<Rightarrow> world \<Rightarrow> world" where
  "random_seed L s w = w\<lparr>py_rng := mt_python L s\<rparr>"

text \<open>
  \<^verbatim>\<open>np.random.uniform(low, high)\<close> takes the next unit sample \<open>r\<close> of the global
  generator and returns \<open>low + (high - low) * r\<close>.
\<close>

definition np_random_uniform :: "real \<Rightarrow> real \<Rightarrow> (nat \<Rightarrow> real) \<Rightarrow> real \<times> (nat \<Rightarrow> real)" where
  "np_random_uniform low high g = (low + (high - low) * g 0, \<lambda>n. g (Suc n))"

subsection \<open>DataFrame operations\<close>

definition columns :: "dataframe \<Rightarrow> string list" where
  "columns df = map fst df"

text \<open>
  \<^verbatim>\<open>data[column_name]\<close>: the columns that carry the label. One column is a Series;
  several (a repeated label) are a DataFrame, which has no numeric dtype.
\<close>

definition getitem :: "dataframe \<Rightarrow> string \<Rightarrow> column list" where
  "getitem df c = map snd (filter (\<lambda>p. fst p = c) df)"

fun is_numeric_dtype :: "column list \<Rightarrow> bool" where
  "is_numeric_dtype [NumCol vs] = True"
| "is_numeric_dtype _ = False"

text \<open>
  \<^verbatim>\<open>data[column_name] = series\<close>: replaces the column of that label where it stands,
  or appends a new column when the label is absent.
\<close>

definition replace_column :: "string \<Rightarrow> column \<Rightarrow> dataframe \<Rightarrow> dataframe" where
  "replace_column c col df = map (\<lambda>p. if fst p = c then (c, col) else p) df"

definition setitem :: "dataframe \<Rightarrow> string \<Rightarrow> column \<Rightarrow> dataframe" where
  "setitem df c col =
     (if c \<in> set (columns df) then replace_column c col df else df @ [(c, col)])"

text \<open>
  \<^verbatim>\<open>series.apply(lambda x: x * (1 + np.random.uniform(min_noise, max_noise)))\<close>:
  the lambda runs once per value, in row order, each call drawing from the generator
  that the previous call left.
\<close>

fun series_apply :: "real \<Rightarrow> real \<Rightarrow> real list \<Rightarrow> (nat \<Rightarrow> real) \<Rightarrow> real list \<times> (nat \<Rightarrow> real)" where
  "series_apply min_noise max_noise [] g = ([], g)"
| "series_apply min_noise max_noise (x # xs) g =
     (case np_random_uniform min_noise max_noise g of
        (u, g1) \<Rightarrow>
          (case series_apply min_noise max_noise xs g1 of
             (ys, g2) \<Rightarrow> (x * (1 + u) # ys, g2)))"

definition frame_at :: "world \<Rightarrow> ref \<Rightarrow> dataframe option" where
  "frame_at w r = (if r < length (heap w) then Some (heap w ! r) else None)"

definition quoted :: "string \<Rightarrow> string" where
  "quoted s = CHR 0x27 # s @ [CHR 0x27]"

section \<open>add_noise\<close>

text \<open>Lines 50 to 52: both generators are reseeded when a seed is given, numpy first.\<close>

definition reseed :: "randlib \<Rightarrow> int option \<Rightarrow> world \<Rightarrow> py_exception + world" where
  "reseed L seed w =
     (case seed of
        None \<Rightarrow> Inr w
      | Some s \<Rightarrow>
          (case np_random_seed L s w of
             Inl e \<Rightarrow> Inl e
           | Inr w1 \<Rightarrow> Inr (random_seed L s w1)))"

text \<open>
  The body of the \<^verbatim>\<open>try\<close> block (lines 41 to 58). A reference that holds no
  DataFrame fails at \<^verbatim>\<open>data.columns\<close>. The test of line 44,
  \<^verbatim>\<open>is_numeric_dtype(data[column_name])\<close>, is the \<^theory_text>\<open>case\<close> on the selected
  columns: it passes on a single numeric column, whose values line 54 then reads.
\<close>

definition add_noise_try ::
  "randlib \<Rightarrow> ref \<Rightarrow> string \<Rightarrow> real \<Rightarrow> real \<Rightarrow> int option \<Rightarrow> world \<Rightarrow> (py_exception + ref) \<times> world" where
  "add_noise_try L data column_name min_noise max_noise seed w =
     (case frame_at w data of
        None \<Rightarrow> (Inl (AttributeError (quoted ''NoneType'' @ '' object has no attribute '' @ quoted ''columns'')), w)
      | Some df \<Rightarrow>
          if column_name \<notin> set (columns df)
          then (Inl (ValueError (''Column '' @ quoted column_name @ '' not found in the input file.'')), w)
          else
            (case getitem df column_name of
               [NumCol vs] \<Rightarrow>
                 if min_noise \<ge> max_noise
                 then (Inl (ValueError ''min_noise must be less than max_noise.''), w)
                 else
                   (case reseed L seed w of
                      Inl e \<Rightarrow> (Inl e, w)
                    | Inr w1 \<Rightarrow>
                        (case series_apply min_noise max_noise vs (np_rng w1) of
                           (vs', g') \<Rightarrow>
                             (Inr data,
                              w1\<lparr>np_rng := g',
                                 heap := (heap w1)[data := setitem df column_name (NumCol vs')]\<rparr>)))
             | _ \<Rightarrow>
                 (Inl (TypeError (''Column '' @ quoted column_name @ '' is not numeric.'')), w)))"

text \<open>The three \<^verbatim>\<open>except\<close> clauses (lines 60 to 68): log, then raise again.\<close>

fun except_message :: "py_exception \<Rightarrow> string" where
  "except_message (ValueError m) = ''ValueError: '' @ m"
| "except_message (TypeError m) = ''TypeError: '' @ m"
| "except_message e = ''An unexpected error occurred: '' @ str_of e"

definition add_noise ::
  "randlib \<Rightarrow> ref \<Rightarrow> string \<Rightarrow> real \<Rightarrow> real \<Rightarrow> int option \<Rightarrow> world \<Rightarrow> (py_exception + ref) \<times> world" where
  "add_noise L data column_name min_noise max_noise seed w =
     (case add_noise_try L data column_name min_noise max_noise seed w of
        (Inl e, w') \<Rightarrow> (Inl e, logging_error (except_message e) w')
      | (Inr r, w') \<Rightarrow> (Inr r, w'))"

section \<open>main\<close>

text \<open>
  \<^verbatim>\<open>pd.read_csv(path)\<close> raises \<^verbatim>\<open>FileNotFoundError\<close> on a missing file and
  \<^verbatim>\<open>EmptyDataError\<close> on an empty one; otherwise it builds a new DataFrame object.
  Content that cannot be parsed raises \<^verbatim>\<open>ParserError\<close>.
  \<^verbatim>\<open>data.to_csv(path, index=False)\<close> writes the table without the row index; a
  failure of the write itself (an unwritable path) is outside the model.
\<close>

definition read_csv :: "string \<Rightarrow> world \<Rightarrow> (py_exception + ref) \<times> world" where
  "read_csv path w =
     (case files w path of
        None \<Rightarrow> (Inl (FileNotFoundError (''No such file or directory: '' @ quoted path)), w)
      | Some EmptyFile \<Rightarrow> (Inl (EmptyDataError ''No columns to parse from file''), w)
      | Some Malformed \<Rightarrow> (Inl (ParserError ''Error tokenizing data''), w)
      | Some (Csv df) \<Rightarrow> (Inr (length (heap w)), w\<lparr>heap := heap w @ [df]\<rparr>))"

definition to_csv :: "ref \<Rightarrow> string \<Rightarrow> world \<Rightarrow> (py_exception + unit) \<times> world" where
  "to_csv data path w =
     (case frame_at w data of
        None \<Rightarrow> (Inl (AttributeError (quoted ''NoneType'' @ '' object has no attribute '' @ quoted ''to_csv'')), w)
      | Some df \<Rightarrow> (Inr (), w\<lparr>files := (files w)(path \<mapsto> Csv df)\<rparr>))"

text \<open>The three \<^verbatim>\<open>except\<close> clauses of \<^verbatim>\<open>main\<close> (lines 92 to 97): log, and return.\<close>

fun main_except :: "string \<Rightarrow> py_exception \<Rightarrow> world \<Rightarrow> world" where
  "main_except input_file (FileNotFoundError m) w =
     logging_error (''Input file not found: '' @ input_file) w"
| "main_except input_file (EmptyDataError m) w =
     logging_error (''Input file is empty: '' @ input_file) w"
| "main_except input_file e w =
     logging_error (''An error occurred: '' @ str_of e) w"

text \<open>
  \<^verbatim>\<open>main\<close>, from the parsed arguments on (\<^verbatim>\<open>args.input_file\<close>, ...,
  \<^verbatim>\<open>args.seed\<close>). It returns the world in which the process ends.
\<close>

definition main ::
  "randlib \<Rightarrow> string \<Rightarrow> string \<Rightarrow> string \<Rightarrow> real \<Rightarrow> real \<Rightarrow> int option \<Rightarrow> world \<Rightarrow> world" where
  "main L input_file output_file column_name min_noise max_noise seed w =
     (case read_csv input_file (logging_info (''Reading input file: '' @ input_file) w) of
        (Inl e, w1) \<Rightarrow> main_except input_file e w1
      | (Inr data, w1) \<Rightarrow>
          (case add_noise L data column_name min_noise max_noise seed
                  (logging_info (''Adding noise to column: '' @ column_name) w1) of
             (Inl e, w2) \<Rightarrow> main_except input_file e w2
           | (Inr data', w2) \<Rightarrow>
               (case to_csv data' output_file
                       (logging_info (''Saving output to: '' @ output_file) w2) of
                  (Inl e, w3) \<Rightarrow> main_except input_file e w3
                | (Inr u, w3) \<Rightarrow>
                    logging_info ''Data masking completed successfully.'' w3)))"

section \<open>Notions used to state the properties\<close>

text \<open>The error kinds of the specification, as the exceptions the code raises for them.\<close>

definition UnknownColumn :: "string \<Rightarrow> py_exception" where
  "UnknownColumn c = ValueError (''Column '' @ quoted c @ '' not found in the input file.'')"

definition NonNumericColumn :: "string \<Rightarrow> py_exception" where
  "NonNumericColumn c = TypeError (''Column '' @ quoted c @ '' is not numeric.'')"

definition InvalidRange :: py_exception where
  "InvalidRange = ValueError ''min_noise must be less than max_noise.''"

text \<open>
  What the caller of \<^verbatim>\<open>add_noise\<close> observes: the exception, or the DataFrame that
  the returned reference holds.
\<close>

definition observed :: "(py_exception + ref) \<times> world \<Rightarrow> py_exception + dataframe option" where
  "observed res = (case res of (Inl e, w') \<Rightarrow> Inl e | (Inr r, w') \<Rightarrow> Inr (frame_at w' r))"

text \<open>The values that \<open>n\<close> successive calls of \<^verbatim>\<open>np.random.uniform\<close> return.\<close>

fun draws :: "real \<Rightarrow> real \<Rightarrow> nat \<Rightarrow> (nat \<Rightarrow> real) \<Rightarrow> real list" where
  "draws low high 0 g = []"
| "draws low high (Suc n) g =
     (case np_random_uniform low high g of (u, g1) \<Rightarrow> u # draws low high n g1)"

text \<open>The generator that the first draw uses: the reseeded one when a seed is given.\<close>

definition generator_at_first_draw :: "randlib \<Rightarrow> int option \<Rightarrow> world \<Rightarrow> nat \<Rightarrow> real" where
  "generator_at_first_draw L seed w = (case seed of None \<Rightarrow> np_rng w | Some s \<Rightarrow> mt_numpy L s)"

text \<open>
  The noised values of a column: value \<open>i\<close> times one plus draw \<open>i\<close>, the draws being
  successive calls of \<^verbatim>\<open>np.random.uniform(min_noise, max_noise)\<close>.
\<close>

definition noised :: "randlib \<Rightarrow> real \<Rightarrow> real \<Rightarrow> int option \<Rightarrow> world \<Rightarrow> real list \<Rightarrow> real list" where
  "noised L min_noise max_noise seed w vs =
     map2 (\<lambda>x u. x * (1 + u)) vs
       (draws min_noise max_noise (length vs) (generator_at_first_draw L seed w))"

text \<open>The seeds that \<^verbatim>\<open>np.random.seed\<close> accepts.\<close>

definition seed_accepted :: "int option \<Rightarrow> bool" where
  "seed_accepted seed = (case seed of None \<Rightarrow> True | Some s \<Rightarrow> 0 \<le> s \<and> s \<le> 2 ^ 32 - 1)"

text \<open>Rows: the cells of a column, and row \<open>i\<close> of a DataFrame as its labelled cells.\<close>

datatype cell = Num real | Str string

fun cells :: "column \<Rightarrow> cell list" where
  "cells (NumCol vs) = map Num vs"
| "cells (ObjCol ss) = map Str ss"

definition cell_at :: "column \<Rightarrow> nat \<Rightarrow> cell option" where
  "cell_at col i = (if i < length (cells col) then Some (cells col ! i) else None)"

definition row_at :: "dataframe \<Rightarrow> nat \<Rightarrow> (string \<times> cell option) list" where
  "row_at df i = map (\<lambda>p. (fst p, cell_at (snd p) i)) df"

definition row_counts :: "dataframe \<Rightarrow> nat list" where
  "row_counts df = map (\<lambda>p. length (cells (snd p))) df"

text \<open>The example table of the specification, and stand-ins for the library parameter.\<close>

definition salary_table :: dataframe where
  "salary_table = [(''id'', NumCol [1, 2]), (''salary'', NumCol [1000, 2000])]"

definition staff_table :: dataframe where
  "staff_table = [(''name'', ObjCol [''ann'', ''bob'']), (''salary'', NumCol [1000, 2000])]"

definition lib0 :: randlib where
  "lib0 = \<lparr>mt_numpy = (\<lambda>s n. if even (s + int n) then 3 / 4 else 1 / 4),
            mt_python = (\<lambda>s n. 0)\<rparr>"

definition world0 :: world where
  "world0 = \<lparr>np_rng = (\<lambda>n. 1 / 4), py_rng = (\<lambda>n. 0), logged = [],
              heap = [salary_table, staff_table],
              files = [''input.csv'' \<mapsto> Csv salary_table, ''staff.csv'' \<mapsto> Csv staff_table,
                       ''empty.csv'' \<mapsto> EmptyFile]\<rparr>"

section \<open>Auxiliary facts\<close>

lemma length_draws: "length (draws low high n g) = n"
  by (induction n arbitrary: g) (simp_all add: np_random_uniform_def)


lemma series_apply_draws:
  "series_apply low high vs g =
     (map2 (\<lambda>x u. x * (1 + u)) vs (draws low high (length vs) g), \<lambda>n. g (n + length vs))"
  by (induction vs arbitrary: g) (simp_all add: np_random_uniform_def)

lemma getitem_columns: "getitem df c \<noteq> [] \<longleftrightarrow> c \<in> set (columns df)"
  by (induction df) (auto simp: getitem_def columns_def)

lemma is_numeric_dtype_iff: "is_numeric_dtype cs \<longleftrightarrow> (\<exists>vs. cs = [NumCol vs])"
  by (cases cs rule: is_numeric_dtype.cases) simp_all

lemma reseed_accepted:
  "seed_accepted seed \<Longrightarrow>
     reseed L seed w =
       Inr (case seed of None \<Rightarrow> w
            | Some s \<Rightarrow> w\<lparr>np_rng := mt_numpy L s, py_rng := mt_python L s\<rparr>)"
  by (cases seed) (simp_all add: reseed_def seed_accepted_def np_random_seed_def random_seed_def)

lemma reseed_rejected:
  "\<not> seed_accepted seed \<Longrightarrow>
     reseed L seed w = Inl (ValueError ''Seed must be between 0 and 2**32 - 1'')"
  by (cases seed) (auto simp add: reseed_def seed_accepted_def np_random_seed_def random_seed_def)

lemma add_noise_dangling:
  "frame_at w data = None \<Longrightarrow>
     add_noise L data c a b seed w =
       (Inl (AttributeError (quoted ''NoneType'' @ '' object has no attribute '' @ quoted ''columns'')),
        logging_error (except_message (AttributeError (quoted ''NoneType'' @ '' object has no attribute '' @ quoted ''columns''))) w)"
  by (simp add: add_noise_def add_noise_try_def)

lemma add_noise_unknown:
  "frame_at w data = Some df \<Longrightarrow> c \<notin> set (columns df) \<Longrightarrow>
     add_noise L data c a b seed w =
       (Inl (UnknownColumn c), logging_error (except_message (UnknownColumn c)) w)"
  by (simp add: add_noise_def add_noise_try_def UnknownColumn_def)

lemma add_noise_nonnumeric:
  assumes "frame_at w data = Some df" and "c \<in> set (columns df)"
    and "\<not> is_numeric_dtype (getitem df c)"
  shows "add_noise L data c a b seed w =
       (Inl (NonNumericColumn c), logging_error (except_message (NonNumericColumn c)) w)"
proof -
  have "add_noise_try L data c a b seed w = (Inl (NonNumericColumn c), w)"
    using assms
    by (auto simp: add_noise_try_def NonNumericColumn_def split: list.splits column.splits)
  then show ?thesis by (simp add: add_noise_def)
qed

lemma add_noise_range:
  assumes "frame_at w data = Some df" and "is_numeric_dtype (getitem df c)" and "b \<le> a"
  shows "add_noise L data c a b seed w =
       (Inl InvalidRange, logging_error (except_message InvalidRange) w)"
proof -
  obtain vs where vs: "getitem df c = [NumCol vs]"
    using assms(2) by (auto simp: is_numeric_dtype_iff)
  then have "c \<in> set (columns df)"
    using getitem_columns [of df c] by simp
  then have "add_noise_try L data c a b seed w = (Inl InvalidRange, w)"
    using assms(1,3) vs by (simp add: add_noise_try_def InvalidRange_def)
  then show ?thesis by (simp add: add_noise_def)
qed

lemma add_noise_seed_rejected:
  assumes "frame_at w data = Some df" and "is_numeric_dtype (getitem df c)" and "a < b"
    and "\<not> seed_accepted seed"
  shows "add_noise L data c a b seed w =
       (Inl (ValueError ''Seed must be between 0 and 2**32 - 1''),
        logging_error (except_message (ValueError ''Seed must be between 0 and 2**32 - 1'')) w)"
proof -
  obtain vs where vs: "getitem df c = [NumCol vs]"
    using assms(2) by (auto simp: is_numeric_dtype_iff)
  then have "c \<in> set (columns df)"
    using getitem_columns [of df c] by simp
  then have "add_noise_try L data c a b seed w =
      (Inl (ValueError ''Seed must be between 0 and 2**32 - 1''), w)"
    using assms(1,3) vs reseed_rejected [OF assms(4), of L w]
    by (simp add: add_noise_try_def)
  then show ?thesis by (simp add: add_noise_def)
qed

lemma add_noise_ok:
  assumes "frame_at w data = Some df" and "getitem df c = [NumCol vs]" and "a < b"
    and "seed_accepted seed"
  shows "add_noise L data c a b seed w =
       (Inr data,
        w\<lparr>np_rng := (\<lambda>n. generator_at_first_draw L seed w (n + length vs)),
          py_rng := (case seed of None \<Rightarrow> py_rng w | Some s \<Rightarrow> mt_python L s),
          heap := (heap w)[data := setitem df c (NumCol (noised L a b seed w vs))]\<rparr>)"
proof -
  have "c \<in> set (columns df)"
    using getitem_columns [of df c] assms(2) by simp
  then have "add_noise_try L data c a b seed w =
       (Inr data,
        w\<lparr>np_rng := (\<lambda>n. generator_at_first_draw L seed w (n + length vs)),
          py_rng := (case seed of None \<Rightarrow> py_rng w | Some s \<Rightarrow> mt_python L s),
          heap := (heap w)[data := setitem df c (NumCol (noised L a b seed w vs))]\<rparr>)"
    using assms reseed_accepted [OF assms(4), of L w]
    by (cases seed)
       (simp_all add: add_noise_try_def series_apply_draws generator_at_first_draw_def noised_def)
  then show ?thesis by (simp add: add_noise_def)
qed

lemma add_noise_success_inv:
  assumes "fst (add_noise L data c a b seed w) = Inr r"
  shows "\<exists>df vs. frame_at w data = Some df \<and> getitem df c = [NumCol vs] \<and> a < b \<and>
           seed_accepted seed \<and> r = data"
proof (cases "frame_at w data")
  case None
  then show ?thesis using assms by (simp add: add_noise_dangling)
next
  case (Some df)
  show ?thesis
  proof (cases "c \<in> set (columns df)")
    case False
    then show ?thesis using assms Some by (simp add: add_noise_unknown)
  next
    case True
    show ?thesis
    proof (cases "is_numeric_dtype (getitem df c)")
      case False
      then show ?thesis using assms Some True by (simp add: add_noise_nonnumeric)
    next
      case numeric: True
      then obtain vs where vs: "getitem df c = [NumCol vs]"
        by (auto simp: is_numeric_dtype_iff)
      show ?thesis
      proof (cases "a < b")
        case False
        then show ?thesis using assms Some numeric by (simp add: add_noise_range)
      next
        case range: True
        show ?thesis
        proof (cases "seed_accepted seed")
          case False
          then show ?thesis
            using assms Some numeric range by (simp add: add_noise_seed_rejected)
        next
          case accepted: True
          then show ?thesis
            using assms Some vs range by (simp add: add_noise_ok)
        qed
      qed
    qed
  qed
qed

lemma length_noised: "length (noised L a b seed w vs) = length vs"
  by (simp add: noised_def length_draws)

lemma nth_noised:
  "i < length vs \<Longrightarrow>
     noised L a b seed w vs ! i =
       vs ! i * (1 + draws a b (length vs) (generator_at_first_draw L seed w) ! i)"
  by (simp add: noised_def length_draws)

lemma setitem_present: "c \<in> set (columns df) \<Longrightarrow> setitem df c col = replace_column c col df"
  by (simp add: setitem_def)

lemma getitem_replace_other:
  "c' \<noteq> c \<Longrightarrow> getitem (replace_column c col df) c' = getitem df c'"
  by (induction df) (auto simp: getitem_def replace_column_def)

lemma getitem_replace_same:
  "getitem (replace_column c col df) c = map (\<lambda>x. col) (getitem df c)"
  by (induction df) (auto simp: getitem_def replace_column_def)

lemma row_at_replace:
  "filter (\<lambda>p. fst p \<noteq> c) (row_at (replace_column c col df) i) =
   filter (\<lambda>p. fst p \<noteq> c) (row_at df i)"
  by (induction df) (auto simp: row_at_def replace_column_def)

lemma getitem_setitem_other: "c' \<noteq> c \<Longrightarrow> getitem (setitem df c col) c' = getitem df c'"
proof (cases "c \<in> set (columns df)")
  case True
  assume "c' \<noteq> c"
  then show ?thesis using True by (simp add: setitem_present getitem_replace_other)
next
  case False
  assume "c' \<noteq> c"
  then show ?thesis using False by (simp add: setitem_def getitem_def)
qed

lemma columns_setitem: "c \<in> set (columns df) \<Longrightarrow> columns (setitem df c col) = columns df"
  by (auto simp: setitem_def columns_def replace_column_def)

lemma getitem_setitem_same:
  assumes "getitem df c = [old]"
  shows "getitem (setitem df c col) c = [col]"
proof -
  have "c \<in> set (columns df)" using getitem_columns [of df c] assms by simp
  then show ?thesis using assms by (simp add: setitem_present getitem_replace_same)
qed

lemma nth_setitem_other:
  "j < length df \<Longrightarrow> fst (df ! j) \<noteq> c \<Longrightarrow> c \<in> set (columns df) \<Longrightarrow>
     setitem df c col ! j = df ! j"
  by (simp add: setitem_def replace_column_def)

lemma row_at_setitem:
  "c \<in> set (columns df) \<Longrightarrow>
     filter (\<lambda>p. fst p \<noteq> c) (row_at (setitem df c col) i) =
     filter (\<lambda>p. fst p \<noteq> c) (row_at df i)"
  by (simp add: setitem_present row_at_replace)

lemma getitem_member:
  "getitem df c = [col] \<Longrightarrow> p \<in> set df \<Longrightarrow> fst p = c \<Longrightarrow> snd p = col"
proof -
  assume a: "getitem df c = [col]" and b: "p \<in> set df" and c: "fst p = c"
  have "snd p \<in> set (getitem df c)" using b c by (auto simp: getitem_def)
  with a show ?thesis by simp
qed

lemma row_counts_setitem:
  assumes "getitem df c = [NumCol vs]" and "length vs' = length vs"
  shows "row_counts (setitem df c (NumCol vs')) = row_counts df"
proof -
  have "c \<in> set (columns df)" using getitem_columns [of df c] assms(1) by simp
  moreover have "\<And>p. p \<in> set df \<Longrightarrow> fst p = c \<Longrightarrow> length (cells (snd p)) = length vs'"
    using getitem_member [OF assms(1)] assms(2) by simp
  ultimately show ?thesis
    by (auto simp: row_counts_def setitem_def replace_column_def)
qed

lemma frame_at_update:
  "frame_at w data = Some df \<Longrightarrow>
     frame_at (w\<lparr>np_rng := g, py_rng := p, heap := (heap w)[data := df']\<rparr>) data = Some df'"
  by (auto simp: frame_at_def split: if_splits)

lemma filter_replace_column:
  "filter (\<lambda>p. fst p \<noteq> c) (replace_column c col df) = filter (\<lambda>p. fst p \<noteq> c) df"
  by (induction df) (auto simp: replace_column_def)

lemma observed_Inr:
  "observed res = Inr out \<longleftrightarrow> (\<exists>r. fst res = Inr r \<and> out = frame_at (snd res) r)"
  by (cases res) (auto simp: observed_def split: sum.splits)

lemma observed_success:
  assumes "frame_at w data = Some df"
    and "observed (add_noise L data c a b seed w) = Inr out"
  shows "\<exists>vs. getitem df c = [NumCol vs] \<and> a < b \<and> seed_accepted seed \<and>
           out = Some (setitem df c (NumCol (noised L a b seed w vs)))"
proof -
  obtain r where r: "fst (add_noise L data c a b seed w) = Inr r"
    and out: "out = frame_at (snd (add_noise L data c a b seed w)) r"
    using assms(2) by (auto simp: observed_Inr)
  obtain vs where vs: "getitem df c = [NumCol vs]" "a < b" "seed_accepted seed" "r = data"
    using add_noise_success_inv [OF r] assms(1) by auto
  have "out = Some (setitem df c (NumCol (noised L a b seed w vs)))"
    using out vs assms(1) by (simp add: add_noise_ok frame_at_update)
  with vs show ?thesis by blast
qed

lemma noised_cong:
  "generator_at_first_draw L1 seed w1 = generator_at_first_draw L2 seed w2 \<Longrightarrow>
     noised L1 a b seed w1 vs = noised L2 a b seed w2 vs"
  by (simp add: noised_def)

lemma observed_agree:
  assumes frames: "frame_at w1 d1 = frame_at w2 d2"
    and gen: "generator_at_first_draw L1 seed w1 = generator_at_first_draw L2 seed w2"
  shows "observed (add_noise L1 d1 c a b seed w1) = observed (add_noise L2 d2 c a b seed w2)"
proof (cases "frame_at w1 d1")
  case None
  then show ?thesis using frames by (simp add: add_noise_dangling observed_def)
next
  case (Some df)
  then have f1: "frame_at w1 d1 = Some df" and f2: "frame_at w2 d2 = Some df"
    using frames by simp_all
  show ?thesis
  proof (cases "c \<in> set (columns df)")
    case False
    then show ?thesis using f1 f2 by (simp add: add_noise_unknown observed_def)
  next
    case True
    show ?thesis
    proof (cases "is_numeric_dtype (getitem df c)")
      case False
      then show ?thesis using f1 f2 True by (simp add: add_noise_nonnumeric observed_def)
    next
      case numeric: True
      then obtain vs where vs: "getitem df c = [NumCol vs]"
        by (auto simp: is_numeric_dtype_iff)
      show ?thesis
      proof (cases "a < b")
        case False
        then show ?thesis using f1 f2 numeric by (simp add: add_noise_range observed_def)
      next
        case range: True
        show ?thesis
        proof (cases "seed_accepted seed")
          case False
          then show ?thesis
            using f1 f2 numeric range by (simp add: add_noise_seed_rejected observed_def)
        next
          case True
          have "observed (add_noise L1 d1 c a b seed w1) =
              Inr (Some (setitem df c (NumCol (noised L1 a b seed w1 vs))))"
            using f1 by (simp add: add_noise_ok [OF f1 vs range True] observed_def frame_at_update)
          moreover have "observed (add_noise L2 d2 c a b seed w2) =
              Inr (Some (setitem df c (NumCol (noised L2 a b seed w2 vs))))"
            using f2 by (simp add: add_noise_ok [OF f2 vs range True] observed_def frame_at_update)
          ultimately show ?thesis using noised_cong [OF gen] by simp
        qed
      qed
    qed
  qed
qed

lemma py_rng_add_noise:
  "py_rng (snd (add_noise L data c a b seed w)) = py_rng w
   \<or> (\<exists>s. seed = Some s \<and> py_rng (snd (add_noise L data c a b seed w)) = mt_python L s)"
proof (cases "fst (add_noise L data c a b seed w)")
  case (Inr r)
  then obtain df vs where "frame_at w data = Some df" "getitem df c = [NumCol vs]" "a < b"
      "seed_accepted seed"
    using add_noise_success_inv [OF Inr] by blast
  then show ?thesis by (cases seed) (simp_all add: add_noise_ok)
next
  case (Inl e)
  have "snd (add_noise L data c a b seed w) = logging_error (except_message e) w"
  proof (cases "frame_at w data")
    case None
    then show ?thesis using Inl by (simp add: add_noise_dangling)
  next
    case (Some df)
    show ?thesis
    proof (cases "c \<in> set (columns df)")
      case False
      then show ?thesis using Inl Some by (simp add: add_noise_unknown)
    next
      case True
      show ?thesis
      proof (cases "is_numeric_dtype (getitem df c)")
        case False
        then show ?thesis using Inl Some True by (simp add: add_noise_nonnumeric)
      next
        case numeric: True
        then obtain vs where vs: "getitem df c = [NumCol vs]"
          by (auto simp: is_numeric_dtype_iff)
        show ?thesis
        proof (cases "a < b")
          case False
          then show ?thesis using Inl Some numeric by (simp add: add_noise_range)
        next
          case range: True
          show ?thesis
          proof (cases "seed_accepted seed")
            case False
            then show ?thesis using Inl Some numeric range by (simp add: add_noise_seed_rejected)
          next
            case True
            then show ?thesis using Inl Some vs range by (simp add: add_noise_ok)
          qed
        qed
      qed
    qed
  qed
  then show ?thesis by (simp add: logging_error_def)
qed

lemma files_logging [simp]:
  "files (logging_info m w) = files w" "files (logging_error m w) = files w"
  by (simp_all add: logging_info_def logging_error_def)

lemma logged_logging [simp]:
  "logged (logging_info m w) = logged w @ [(INFO, m)]"
  "logged (logging_error m w) = logged w @ [(ERROR, m)]"
  by (simp_all add: logging_info_def logging_error_def)

lemma files_main_except: "files (main_except input_file e w) = files w"
  by (cases e) simp_all

lemma logged_main_except:
  "\<exists>m. logged (main_except input_file e w) = logged w @ [(ERROR, m)]"
  by (cases e) simp_all

lemma read_csv_logging:
  "read_csv path (logging_info m w) =
     (case read_csv path w of (res, w') \<Rightarrow> (res, logging_info m w'))"
  by (simp add: read_csv_def logging_info_def split: option.splits file_content.splits)

lemma main_read_failed:
  assumes "files w input_file = None \<or> files w input_file = Some EmptyFile"
  shows "\<exists>e. main L input_file output_file c a b seed w =
           main_except input_file e (logging_info (''Reading input file: '' @ input_file) w)"
proof -
  obtain e where "read_csv input_file w = (Inl e, w)"
    using assms by (auto simp: read_csv_def)
  then have "main L input_file output_file c a b seed w =
      main_except input_file e (logging_info (''Reading input file: '' @ input_file) w)"
    unfolding main_def read_csv_logging by simp
  then show ?thesis by blast
qed

lemma main_add_noise_failed:
  assumes src: "files w input_file = Some (Csv df)"
    and bad: "c \<notin> set (columns df) \<or> \<not> is_numeric_dtype (getitem df c) \<or> \<not> a < b"
  shows "\<exists>e m. main L input_file output_file c a b seed w =
           main_except input_file e
             (logging_error m
               (logging_info (''Adding noise to column: '' @ c)
                 ((logging_info (''Reading input file: '' @ input_file) w)
                    \<lparr>heap := heap w @ [df]\<rparr>)))"
proof -
  let ?w1 = "(logging_info (''Reading input file: '' @ input_file) w)\<lparr>heap := heap w @ [df]\<rparr>"
  let ?w2 = "logging_info (''Adding noise to column: '' @ c) ?w1"
  have "read_csv input_file w = (Inr (length (heap w)), w\<lparr>heap := heap w @ [df]\<rparr>)"
    using src by (simp add: read_csv_def)
  then have read: "read_csv input_file (logging_info (''Reading input file: '' @ input_file) w) =
      (Inr (length (heap w)), ?w1)"
    unfolding read_csv_logging by (simp add: logging_info_def)
  have frame: "frame_at ?w2 (length (heap w)) = Some df"
    by (simp add: frame_at_def logging_info_def)
  have "\<exists>e. add_noise L (length (heap w)) c a b seed ?w2 =
      (Inl e, logging_error (except_message e) ?w2)"
  proof (cases "c \<in> set (columns df)")
    case False
    then show ?thesis using add_noise_unknown [OF frame] by blast
  next
    case True
    show ?thesis
    proof (cases "is_numeric_dtype (getitem df c)")
      case False
      then show ?thesis using add_noise_nonnumeric [OF frame True] by blast
    next
      case numeric: True
      then have "b \<le> a" using bad True by auto
      then show ?thesis using add_noise_range [OF frame numeric] by blast
    qed
  qed
  then obtain e where "add_noise L (length (heap w)) c a b seed ?w2 =
      (Inl e, logging_error (except_message e) ?w2)" by blast
  then have "main L input_file output_file c a b seed w =
      main_except input_file e (logging_error (except_message e) ?w2)"
    unfolding main_def read by simp
  then show ?thesis by blast
qed

section \<open>The claims\<close>





text \<open>
  C5. After a successful call, every column \<open>c'\<close> other than the target holds what it
  held before, and the columns other than the target stand in the same order with the
  same values.
\<close>

theorem other_columns_unchanged:
  assumes "frame_at w data = Some df"
    and "observed (add_noise L data c a b seed w) = Inr out"
    and "c' \<noteq> c"
  shows "\<exists>df'. out = Some df' \<and> getitem df' c' = getitem df c'
           \<and> filter (\<lambda>p. fst p \<noteq> c) df' = filter (\<lambda>p. fst p \<noteq> c) df"
proof -
  obtain vs where vs: "getitem df c = [NumCol vs]"
    and out: "out = Some (setitem df c (NumCol (noised L a b seed w vs)))"
    using observed_success [OF assms(1,2)] by blast
  have "c \<in> set (columns df)" using getitem_columns [of df c] vs by simp
  then have "filter (\<lambda>p. fst p \<noteq> c) (setitem df c (NumCol (noised L a b seed w vs))) =
      filter (\<lambda>p. fst p \<noteq> c) df"
    by (simp add: setitem_present filter_replace_column)
  then show ?thesis using out assms(3) by (simp add: getitem_setitem_other)
qed

text \<open>
  The salary table with seed 42 and range \<open>(-0.2, 0.2)\<close>: column \<open>id\<close> is untouched.
\<close>

theorem other_columns_unchanged_witness:
  "frame_at world0 0 = Some salary_table
 \<and> observed (add_noise lib0 0 ''salary'' (- 1 / 5) (1 / 5) (Some 42) world0) =
     Inr (Some [(''id'', NumCol [1, 2]), (''salary'', NumCol [1100, 1800])])
 \<and> getitem [(''id'', NumCol [1, 2]), (''salary'', NumCol [1100, 1800])] ''id'' =
     getitem salary_table ''id''"
proof -
  have f0: "frame_at world0 0 = Some salary_table"
    by (simp add: frame_at_def world0_def)
  have run: "observed (add_noise lib0 0 ''salary'' (- 1 / 5) (1 / 5) (Some 42) world0) =
     Inr (Some [(''id'', NumCol [1, 2]), (''salary'', NumCol [1100, 1800])])"
    by (simp add: observed_def add_noise_def add_noise_try_def frame_at_def world0_def
      salary_table_def lib0_def columns_def getitem_def setitem_def replace_column_def
      reseed_def np_random_seed_def random_seed_def np_random_uniform_def)
  have "''id'' \<noteq> ''salary''" by simp
  from other_columns_unchanged [OF f0 run this] f0 run show ?thesis by simp
qed

text \<open>
  C6. After a successful call the DataFrame has the same column labels in the same
  order and the same number of rows in every column; row \<open>i\<close> of the output is row \<open>i\<close>
  of the input in every cell outside the target column, and its target cell is the
  noised value of the input's target cell of the same row.
\<close>

theorem row_order_preserved:
  assumes "frame_at w data = Some df"
    and "observed (add_noise L data c a b seed w) = Inr out"
  shows "\<exists>df' vs vs'. out = Some df'
           \<and> columns df' = columns df
           \<and> row_counts df' = row_counts df
           \<and> (\<forall>i. filter (\<lambda>p. fst p \<noteq> c) (row_at df' i) = filter (\<lambda>p. fst p \<noteq> c) (row_at df i))
           \<and> getitem df c = [NumCol vs] \<and> getitem df' c = [NumCol vs']
           \<and> length vs' = length vs
           \<and> (\<forall>i<length vs. vs' ! i =
                 vs ! i * (1 + draws a b (length vs) (generator_at_first_draw L seed w) ! i))"
proof -
  obtain vs where vs: "getitem df c = [NumCol vs]"
    and out: "out = Some (setitem df c (NumCol (noised L a b seed w vs)))"
    using observed_success [OF assms] by blast
  let ?vs' = "noised L a b seed w vs"
  let ?df' = "setitem df c (NumCol ?vs')"
  have present: "c \<in> set (columns df)" using getitem_columns [of df c] vs by simp
  have labels: "columns ?df' = columns df"
    using present by (rule columns_setitem)
  have counts: "row_counts ?df' = row_counts df"
    using vs by (rule row_counts_setitem) (rule length_noised)
  have rows: "\<forall>i. filter (\<lambda>p. fst p \<noteq> c) (row_at ?df' i) = filter (\<lambda>p. fst p \<noteq> c) (row_at df i)"
    using present by (simp add: row_at_setitem)
  have target: "getitem ?df' c = [NumCol ?vs']"
    using vs by (rule getitem_setitem_same)
  have noisy: "\<forall>i<length vs. ?vs' ! i =
      vs ! i * (1 + draws a b (length vs) (generator_at_first_draw L seed w) ! i)"
    by (simp add: nth_noised)
  from out labels counts rows vs target noisy length_noised [of L a b seed w vs]
  show ?thesis by blast
qed

text \<open>
  The salary table without a seed and with range \<open>(-0.2, 0.2)\<close>.
\<close>

theorem row_order_preserved_witness:
  "frame_at world0 0 = Some salary_table
 \<and> observed (add_noise lib0 0 ''salary'' (- 1 / 5) (1 / 5) None world0) =
     Inr (Some [(''id'', NumCol [1, 2]), (''salary'', NumCol [900, 1800])])
 \<and> (\<exists>df' vs vs'. Some [(''id'', NumCol [1, 2]), (''salary'', NumCol [900, 1800])] = Some df'
           \<and> columns df' = columns salary_table
           \<and> row_counts df' = row_counts salary_table
           \<and> (\<forall>i. filter (\<lambda>p. fst p \<noteq> ''salary'') (row_at df' i) =
                    filter (\<lambda>p. fst p \<noteq> ''salary'') (row_at salary_table i))
           \<and> getitem salary_table ''salary'' = [NumCol vs] \<and> getitem df' ''salary'' = [NumCol vs']
           \<and> length vs' = length vs
           \<and> (\<forall>i<length vs. vs' ! i =
                 vs ! i * (1 + draws (- 1 / 5) (1 / 5) (length vs)
                                 (generator_at_first_draw lib0 None world0) ! i)))"
proof -
  have f0: "frame_at world0 0 = Some salary_table"
    by (simp add: frame_at_def world0_def)
  have run: "observed (add_noise lib0 0 ''salary'' (- 1 / 5) (1 / 5) None world0) =
     Inr (Some [(''id'', NumCol [1, 2]), (''salary'', NumCol [900, 1800])])"
    by (simp add: observed_def add_noise_def add_noise_try_def frame_at_def world0_def
      salary_table_def columns_def getitem_def setitem_def replace_column_def
      reseed_def np_random_uniform_def)
  from row_order_preserved [OF f0 run] f0 run show ?thesis by blast
qed

text \<open>
  C9. A successful call returns the reference it was given. The object behind that
  reference now holds the noised column, so the caller's DataFrame has changed. No
  object was added to the store (no copy holds the old values), every other object is
  as before, and no file was written.
\<close>

theorem add_noise_in_place:
  assumes "fst (add_noise L data c a b seed w) = Inr r"
  shows "r = data
       \<and> (\<exists>df vs. frame_at w data = Some df \<and> getitem df c = [NumCol vs]
            \<and> heap (snd (add_noise L data c a b seed w)) =
                (heap w)[data := setitem df c (NumCol (noised L a b seed w vs))]
            \<and> frame_at (snd (add_noise L data c a b seed w)) data =
                Some (setitem df c (NumCol (noised L a b seed w vs)))
            \<and> getitem (setitem df c (NumCol (noised L a b seed w vs))) c =
                [NumCol (noised L a b seed w vs)])
       \<and> length (heap (snd (add_noise L data c a b seed w))) = length (heap w)
       \<and> (\<forall>r'. r' \<noteq> data \<longrightarrow>
             frame_at (snd (add_noise L data c a b seed w)) r' = frame_at w r')
       \<and> files (snd (add_noise L data c a b seed w)) = files w"
proof -
  obtain df vs where df: "frame_at w data = Some df" and vs: "getitem df c = [NumCol vs]"
    and ok: "a < b" "seed_accepted seed" and r: "r = data"
    using add_noise_success_inv [OF assms] by blast
  note run = add_noise_ok [OF df vs ok, of L]
  have store: "heap (snd (add_noise L data c a b seed w)) =
      (heap w)[data := setitem df c (NumCol (noised L a b seed w vs))]"
    by (simp add: run)
  have here: "frame_at (snd (add_noise L data c a b seed w)) data =
      Some (setitem df c (NumCol (noised L a b seed w vs)))"
    using df by (simp add: run frame_at_update)
  have target: "getitem (setitem df c (NumCol (noised L a b seed w vs))) c =
      [NumCol (noised L a b seed w vs)]"
    using vs by (rule getitem_setitem_same)
  have size: "length (heap (snd (add_noise L data c a b seed w))) = length (heap w)"
    by (simp add: store)
  have others: "\<forall>r'. r' \<noteq> data \<longrightarrow>
      frame_at (snd (add_noise L data c a b seed w)) r' = frame_at w r'"
    by (simp add: frame_at_def store)
  have fs: "files (snd (add_noise L data c a b seed w)) = files w"
    by (simp add: run)
  from r df vs store here target size others fs show ?thesis by blast
qed

text \<open>
  The salary table with seed 42: the object at reference 0 is overwritten, the one at
  reference 1 is not.
\<close>

theorem add_noise_in_place_witness:
  "fst (add_noise lib0 0 ''salary'' (- 1 / 5) (1 / 5) (Some 42) world0) = Inr 0
 \<and> frame_at world0 0 = Some [(''id'', NumCol [1, 2]), (''salary'', NumCol [1000, 2000])]
 \<and> frame_at (snd (add_noise lib0 0 ''salary'' (- 1 / 5) (1 / 5) (Some 42) world0)) 0 =
     Some [(''id'', NumCol [1, 2]), (''salary'', NumCol [1100, 1800])]
 \<and> length (heap (snd (add_noise lib0 0 ''salary'' (- 1 / 5) (1 / 5) (Some 42) world0))) =
     length (heap world0)
 \<and> frame_at (snd (add_noise lib0 0 ''salary'' (- 1 / 5) (1 / 5) (Some 42) world0)) 1 =
     frame_at world0 1"
proof -
  have run: "fst (add_noise lib0 0 ''salary'' (- 1 / 5) (1 / 5) (Some 42) world0) = Inr 0"
    by (simp add: add_noise_def add_noise_try_def frame_at_def world0_def
      salary_table_def lib0_def columns_def getitem_def setitem_def replace_column_def
      reseed_def np_random_seed_def random_seed_def np_random_uniform_def)
  have f0: "frame_at world0 0 = Some [(''id'', NumCol [1, 2]), (''salary'', NumCol [1000, 2000])]"
    by (simp add: frame_at_def world0_def salary_table_def)
  have vals: "noised lib0 (- 1 / 5) (1 / 5) (Some 42) world0 [1000, 2000] = [1100, 1800]"
    by (simp add: noised_def generator_at_first_draw_def lib0_def np_random_uniform_def
        numeral_2_eq_2)
  have tbl: "setitem [(''id'', NumCol [1, 2]), (''salary'', NumCol [1000, 2000])] ''salary''
       (NumCol [1100, 1800]) = [(''id'', NumCol [1, 2]), (''salary'', NumCol [1100, 1800])]"
    by (simp add: setitem_def replace_column_def columns_def)
  have sel: "getitem [(''id'', NumCol [1, 2]), (''salary'', NumCol [1000, 2000])] ''salary'' =
      [NumCol [1000, 2000]]"
    by (simp add: getitem_def)
  from add_noise_in_place [OF run] run f0 vals tbl sel show ?thesis
    by auto
qed

text \<open>
  C2. Two calls with the same seed, the same data, the same column and the same range
  give the same result, whatever the two process states are otherwise (generator
  states, log, other objects): the same exception, or DataFrames that are equal. The
  draws come from the generator as reseeded at line 51, before the first draw.
\<close>

theorem same_seed_same_output:
  assumes "frame_at w1 d1 = frame_at w2 d2"
  shows "observed (add_noise L d1 c a b (Some s) w1) = observed (add_noise L d2 c a b (Some s) w2)"
  using assms by (rule observed_agree) (simp add: generator_at_first_draw_def)

text \<open>
  Seed 42 on the salary table, in two worlds whose numpy generators differ and which
  hold the table at different references.
\<close>

theorem same_seed_same_output_witness:
  "frame_at world0 0 = frame_at (world0\<lparr>np_rng := (\<lambda>n. 3 / 4), heap := [staff_table, salary_table]\<rparr>) 1
 \<and> observed (add_noise lib0 0 ''salary'' (- 1 / 5) (1 / 5) (Some 42) world0) =
   observed (add_noise lib0 1 ''salary'' (- 1 / 5) (1 / 5) (Some 42)
     (world0\<lparr>np_rng := (\<lambda>n. 3 / 4), heap := [staff_table, salary_table]\<rparr>))"
proof -
  have "frame_at world0 0 =
      frame_at (world0\<lparr>np_rng := (\<lambda>n. 3 / 4), heap := [staff_table, salary_table]\<rparr>) 1"
    by (simp add: frame_at_def world0_def)
  from this same_seed_same_output [OF this] show ?thesis by simp
qed

text \<open>
  C10. The result does not depend on Python's \<^verbatim>\<open>random\<close> module: changing the state
  of that generator, and the state that \<^verbatim>\<open>random.seed\<close> gives it, changes neither the
  exception nor the returned DataFrame, with or without a seed. The call draws nothing
  from that generator: it leaves it as it was or as \<^verbatim>\<open>random.seed\<close> set it.
\<close>

theorem python_generator_irrelevant:
  "observed (add_noise (L\<lparr>mt_python := q\<rparr>) data c a b seed (w\<lparr>py_rng := p\<rparr>)) =
     observed (add_noise L data c a b seed w)
 \<and> (py_rng (snd (add_noise L data c a b seed w)) = py_rng w
      \<or> (\<exists>s. seed = Some s \<and> py_rng (snd (add_noise L data c a b seed w)) = mt_python L s))"
proof -
  have "frame_at (w\<lparr>py_rng := p\<rparr>) data = frame_at w data"
    by (simp add: frame_at_def)
  moreover have "generator_at_first_draw (L\<lparr>mt_python := q\<rparr>) seed (w\<lparr>py_rng := p\<rparr>) =
      generator_at_first_draw L seed w"
    by (cases seed) (simp_all add: generator_at_first_draw_def)
  ultimately have "observed (add_noise (L\<lparr>mt_python := q\<rparr>) data c a b seed (w\<lparr>py_rng := p\<rparr>)) =
      observed (add_noise L data c a b seed w)"
    by (rule observed_agree)
  then show ?thesis using py_rng_add_noise [of L data c a b seed w] by blast
qed

text \<open>
  C8. When the input file is missing or empty, or the column is unknown or not
  numeric, or the range is invalid, \<^verbatim>\<open>main\<close> ends with the files exactly as they
  were (no output file is written) and the last record it logged is an error.
\<close>

theorem failure_writes_no_output:
  assumes "files w input_file = None \<or> files w input_file = Some EmptyFile
        \<or> (\<exists>df. files w input_file = Some (Csv df)
              \<and> (c \<notin> set (columns df) \<or> \<not> is_numeric_dtype (getitem df c) \<or> \<not> a < b))"
  shows "files (main L input_file output_file c a b seed w) = files w
       \<and> (\<exists>ms m. logged (main L input_file output_file c a b seed w) =
                   logged w @ ms @ [(ERROR, m)])"
proof (cases "files w input_file = None \<or> files w input_file = Some EmptyFile")
  case True
  define w1 where "w1 = logging_info (''Reading input file: '' @ input_file) w"
  obtain e where run: "main L input_file output_file c a b seed w = main_except input_file e w1"
    using main_read_failed [OF True] unfolding w1_def by blast
  obtain m where m: "logged (main_except input_file e w1) = logged w1 @ [(ERROR, m)]"
    using logged_main_except by blast
  have "logged w1 = logged w @ [(INFO, ''Reading input file: '' @ input_file)]"
    unfolding w1_def by (rule logged_logging)
  then have "logged (main L input_file output_file c a b seed w) =
      logged w @ [(INFO, ''Reading input file: '' @ input_file)] @ [(ERROR, m)]"
    unfolding run m by simp
  moreover have "files (main L input_file output_file c a b seed w) = files w"
    unfolding run files_main_except w1_def by (rule files_logging)
  ultimately show ?thesis by blast
next
  case False
  then obtain df where src: "files w input_file = Some (Csv df)"
    and bad: "c \<notin> set (columns df) \<or> \<not> is_numeric_dtype (getitem df c) \<or> \<not> a < b"
    using assms by blast
  define w1 where
    "w1 = (logging_info (''Reading input file: '' @ input_file) w)\<lparr>heap := heap w @ [df]\<rparr>"
  define w2 where "w2 = logging_info (''Adding noise to column: '' @ c) w1"
  obtain e m0 where run: "main L input_file output_file c a b seed w =
      main_except input_file e (logging_error m0 w2)"
    using main_add_noise_failed [OF src bad] unfolding w1_def w2_def by blast
  obtain m where m: "logged (main_except input_file e (logging_error m0 w2)) =
      logged (logging_error m0 w2) @ [(ERROR, m)]"
    using logged_main_except by blast
  have l1: "logged w1 = logged w @ [(INFO, ''Reading input file: '' @ input_file)]"
    unfolding w1_def by (simp add: logging_info_def)
  have l2: "logged w2 = logged w1 @ [(INFO, ''Adding noise to column: '' @ c)]"
    unfolding w2_def by (rule logged_logging)
  have "logged (main L input_file output_file c a b seed w) =
      logged w @ [(INFO, ''Reading input file: '' @ input_file),
                  (INFO, ''Adding noise to column: '' @ c), (ERROR, m0)] @ [(ERROR, m)]"
    unfolding run m logged_logging l2 l1 by simp
  moreover have "files w1 = files w"
    unfolding w1_def by (simp add: logging_info_def)
  then have "files (main L input_file output_file c a b seed w) = files w"
    unfolding run files_main_except files_logging w2_def by simp
  ultimately show ?thesis by blast
qed

text \<open>
  One run for each of the five failures: the output path is still absent afterwards.
\<close>

theorem failure_writes_no_output_witness:
  "files (main lib0 ''nofile.csv'' ''out.csv'' ''salary'' (- 1 / 10) (1 / 10) None world0) ''out.csv'' = None
 \<and> files (main lib0 ''empty.csv'' ''out.csv'' ''salary'' (- 1 / 10) (1 / 10) None world0) ''out.csv'' = None
 \<and> files (main lib0 ''input.csv'' ''out.csv'' ''missing'' (- 1 / 10) (1 / 10) None world0) ''out.csv'' = None
 \<and> files (main lib0 ''staff.csv'' ''out.csv'' ''name'' (- 1 / 10) (1 / 10) None world0) ''out.csv'' = None
 \<and> files (main lib0 ''input.csv'' ''out.csv'' ''salary'' (1 / 5) (1 / 10) (Some 42) world0) ''out.csv'' = None"
proof -
  have absent: "files world0 ''out.csv'' = None"
    by (simp add: world0_def)
  have missing: "files world0 ''nofile.csv'' = None"
    by (simp add: world0_def)
  have empty: "files world0 ''empty.csv'' = Some EmptyFile"
    by (simp add: world0_def)
  have unknown: "files world0 ''input.csv'' = Some (Csv salary_table)
      \<and> ''missing'' \<notin> set (columns salary_table)"
    by (simp add: world0_def columns_def salary_table_def)
  have nonnum: "files world0 ''staff.csv'' = Some (Csv staff_table)
      \<and> \<not> is_numeric_dtype (getitem staff_table ''name'')"
    by (simp add: world0_def getitem_def staff_table_def)
  have range: "files world0 ''input.csv'' = Some (Csv salary_table) \<and> \<not> (1 / 5 :: real) < 1 / 10"
    by (simp add: world0_def)
  show ?thesis
    using failure_writes_no_output [of world0 "''nofile.csv''" "''salary''" "- 1 / 10" "1 / 10" lib0 "''out.csv''" None]
      failure_writes_no_output [of world0 "''empty.csv''" "''salary''" "- 1 / 10" "1 / 10" lib0 "''out.csv''" None]
      failure_writes_no_output [of world0 "''input.csv''" "''missing''" "- 1 / 10" "1 / 10" lib0 "''out.csv''" None]
      failure_writes_no_output [of world0 "''staff.csv''" "''name''" "- 1 / 10" "1 / 10" lib0 "''out.csv''" None]
      failure_writes_no_output [of world0 "''input.csv''" "''salary''" "1 / 5" "1 / 10" lib0 "''out.csv''" "Some 42"]
      absent missing empty unknown nonnum range
    by metis
qed




end
